theory Spec2Isabelle
  imports Main "HOL-Library.Word"
begin

section \<open>The batch/player ledger contract \<open>RTSFheGameFHE\<close>\<close>

text \<open>
  A shallow embedding of \<^verbatim>\<open>contracts/RTS_Fhe_Game.sol\<close>. Storage is a record, every
  external function is a function from the storage before the call to an outcome, and a
  \<^verbatim>\<open>revert\<close> is an outcome of its own that carries the storage as it stands at the
  point where the call aborts.
\<close>

subsection \<open>Value types\<close>

type_synonym uint256 = "256 word"
type_synonym uint32 = "32 word"
type_synonym bytes32 = "256 word"
type_synonym address = "160 word"
type_synonym bytes = "8 word list"

text \<open>An \<^verbatim>\<open>euint32\<close> is a ciphertext handle: one 32-byte storage word, zero when unset.\<close>

type_synonym euint32 = "256 word"

datatype error =
    NotOwner
  | NotProvider
  | Paused
  | CooldownActive
  | InvalidArgument
  | BatchNotOpen
  | ReplayAttempt
  | StateMismatch
  | InvalidProof
  | AlreadyInitialized
  | Panic
  | LibraryRevert
  | DecodeRevert

text \<open>
  The last three are not declared by the contract: \<open>Panic\<close> is the checked-arithmetic
  overflow of Solidity 0.8, \<open>LibraryRevert\<close> a revert inside a call into the FHE library,
  \<open>DecodeRevert\<close> the revert of a byte slice or of \<^verbatim>\<open>abi.decode\<close> on malformed data.
\<close>

datatype event =
    ProviderAdded address
  | ProviderRemoved address
  | CooldownSecondsSet uint32 uint32
  | ContractPaused
  | ContractUnpaused
  | BatchOpened uint256
  | BatchClosed uint256
  | ResourcesSubmitted address uint256 bytes32 bytes32
  | DecryptionRequested uint256 uint256
  | DecryptionCompleted uint256 uint256 uint32 uint32

record DecryptionContext =
  batchId :: uint256
  stateHash :: bytes32
  processed :: bool

record PlayerData =
  encryptedTotalResources :: euint32
  encryptedCollectionRate :: euint32

text \<open>
  Contract storage. A Solidity mapping is total and reads as zero where nothing was
  written, so each mapping is a total function. \<open>events\<close> is the log of the events
  emitted so far, oldest first.
\<close>

record storage =
  isProvider :: "address \<Rightarrow> bool"
  playerData :: "uint256 \<Rightarrow> address \<Rightarrow> PlayerData"
  batchOpen :: "uint256 \<Rightarrow> bool"
  decryptionContexts :: "uint256 \<Rightarrow> DecryptionContext"
  lastSubmissionTime :: "address \<Rightarrow> uint256"
  lastDecryptionRequestTime :: "address \<Rightarrow> uint256"
  owner :: address
  cooldownSeconds :: uint32
  currentBatchId :: uint256
  paused :: bool
  events :: "event list"

text \<open>
  The pure functions the contract takes from the FHE library and from the EVM. They are
  parameters of the model: \<open>keccak256_encode cts a\<close> stands for
  \<^verbatim>\<open>keccak256(abi.encode(cts, a))\<close>.
\<close>

record fhe =
  isInitialized :: "euint32 \<Rightarrow> bool"
  toBytes32 :: "euint32 \<Rightarrow> bytes32"
  keccak256_encode :: "bytes32 list \<Rightarrow> address \<Rightarrow> bytes32"

text \<open>
  What one call sees of its surroundings: the caller, the block time, the contract's own
  address, and the answers of the external decryption service during this call.
  \<open>fhe_requestDecryption\<close> is the request id that \<^verbatim>\<open>FHE.requestDecryption\<close> returns
  (\<open>None\<close> when that call reverts); \<open>fhe_checkSignatures\<close> tells whether
  \<^verbatim>\<open>FHE.checkSignatures\<close> accepts, and it reverts when it does not.
\<close>

record env =
  msg_sender :: address
  block_timestamp :: uint256
  this_address :: address
  fhe_requestDecryption :: "uint256 option"
  fhe_checkSignatures :: "uint256 \<Rightarrow> bytes \<Rightarrow> bytes \<Rightarrow> bool"

datatype outcome = Revert error storage | Return storage

subsection \<open>Arithmetic, slices and decoding\<close>

text \<open>Checked addition on \<^verbatim>\<open>uint256\<close>: overflow is a panic, not a wrap-around.\<close>

definition checked_add :: "uint256 \<Rightarrow> uint256 \<Rightarrow> uint256 option" where
  "checked_add a b = (if unat a + unat b < 2 ^ 256 then Some (a + b) else None)"

text \<open>
  \<^verbatim>\<open>bs[i:j]\<close> reverts unless \<open>i \<le> j \<le> length bs\<close>. The source slices a
  \<^verbatim>\<open>bytes memory\<close> argument; the model gives the slice the meaning Solidity defines
  for it, that of a slice of a calldata array.
\<close>

definition bytes_slice :: "bytes \<Rightarrow> nat \<Rightarrow> nat \<Rightarrow> bytes option" where
  "bytes_slice bs i j = (if i \<le> j \<and> j \<le> length bs then Some (take (j - i) (drop i bs)) else None)"

definition be_nat :: "bytes \<Rightarrow> nat" where
  "be_nat bs = foldl (\<lambda>acc b. acc * 256 + unat b) 0 bs"

text \<open>
  \<^verbatim>\<open>abi.decode(bs, (uint32))\<close> reads the first 32-byte word, big-endian, and reverts
  when there is none or when it does not fit 32 bits.
\<close>

definition abi_decode_uint32 :: "bytes \<Rightarrow> uint32 option" where
  "abi_decode_uint32 bs =
     (if length bs < 32 then None
      else if be_nat (take 32 bs) < 2 ^ 32 then Some (of_nat (be_nat (take 32 bs)))
      else None)"

definition decode_at :: "bytes \<Rightarrow> nat \<Rightarrow> nat \<Rightarrow> uint32 option" where
  "decode_at bs i j = (case bytes_slice bs i j of None \<Rightarrow> None | Some sl \<Rightarrow> abi_decode_uint32 sl)"

definition emit :: "event \<Rightarrow> storage \<Rightarrow> storage" where
  "emit ev s = s\<lparr>events := events s @ [ev]\<rparr>"

subsection \<open>Modifiers\<close>

text \<open>A modifier wraps the rest of the call, which runs where the source has \<^verbatim>\<open>_;\<close>.\<close>

definition onlyOwner :: "env \<Rightarrow> (storage \<Rightarrow> outcome) \<Rightarrow> storage \<Rightarrow> outcome" where
  "onlyOwner e body s = (if msg_sender e \<noteq> owner s then Revert NotOwner s else body s)"

definition onlyProvider :: "env \<Rightarrow> (storage \<Rightarrow> outcome) \<Rightarrow> storage \<Rightarrow> outcome" where
  "onlyProvider e body s = (if \<not> isProvider s (msg_sender e) then Revert NotProvider s else body s)"

definition whenNotPaused :: "(storage \<Rightarrow> outcome) \<Rightarrow> storage \<Rightarrow> outcome" where
  "whenNotPaused body s = (if paused s then Revert Paused s else body s)"

definition checkCooldown :: "env \<Rightarrow> address \<Rightarrow> (storage \<Rightarrow> outcome) \<Rightarrow> storage \<Rightarrow> outcome" where
  "checkCooldown e user body s =
     (case checked_add (lastSubmissionTime s user) (ucast (cooldownSeconds s)) of
        None \<Rightarrow> Revert Panic s
      | Some windowEnd \<Rightarrow>
          if block_timestamp e < windowEnd then Revert CooldownActive s else body s)"

subsection \<open>Constructor and owner operations\<close>

definition constructor :: "env \<Rightarrow> storage" where
  "constructor e =
     \<lparr>isProvider = (\<lambda>_. False),
      playerData = (\<lambda>_ _. \<lparr>encryptedTotalResources = 0, encryptedCollectionRate = 0\<rparr>),
      batchOpen = (\<lambda>_. False)(1 := True),
      decryptionContexts = (\<lambda>_. \<lparr>batchId = 0, stateHash = 0, processed = False\<rparr>),
      lastSubmissionTime = (\<lambda>_. 0),
      lastDecryptionRequestTime = (\<lambda>_. 0),
      owner = msg_sender e,
      cooldownSeconds = 30,
      currentBatchId = 1,
      paused = False,
      events = []\<rparr>"

definition addProvider :: "env \<Rightarrow> address \<Rightarrow> storage \<Rightarrow> outcome" where
  "addProvider e provider =
     onlyOwner e (\<lambda>s.
       if provider = 0 then Revert InvalidArgument s
       else Return (emit (ProviderAdded provider) (s\<lparr>isProvider := (isProvider s)(provider := True)\<rparr>)))"

definition removeProvider :: "env \<Rightarrow> address \<Rightarrow> storage \<Rightarrow> outcome" where
  "removeProvider e provider =
     onlyOwner e (\<lambda>s.
       if \<not> isProvider s provider then Revert InvalidArgument s
       else Return (emit (ProviderRemoved provider) (s\<lparr>isProvider := (isProvider s)(provider := False)\<rparr>)))"

definition setCooldownSeconds :: "env \<Rightarrow> uint32 \<Rightarrow> storage \<Rightarrow> outcome" where
  "setCooldownSeconds e newValue =
     onlyOwner e (\<lambda>s.
       Return ((emit (CooldownSecondsSet (cooldownSeconds s) newValue) s)\<lparr>cooldownSeconds := newValue\<rparr>))"

definition pause :: "env \<Rightarrow> storage \<Rightarrow> outcome" where
  "pause e = onlyOwner e (whenNotPaused (\<lambda>s. Return (emit ContractPaused (s\<lparr>paused := True\<rparr>))))"

definition unpause :: "env \<Rightarrow> storage \<Rightarrow> outcome" where
  "unpause e =
     onlyOwner e (\<lambda>s.
       if \<not> paused s then Revert InvalidArgument s
       else Return (emit ContractUnpaused (s\<lparr>paused := False\<rparr>)))"

definition openNewBatch :: "env \<Rightarrow> storage \<Rightarrow> outcome" where
  "openNewBatch e =
     onlyOwner e (\<lambda>s.
       case checked_add (currentBatchId s) 1 of
         None \<Rightarrow> Revert Panic s
       | Some next \<Rightarrow>
           Return (emit (BatchOpened next)
                     (s\<lparr>currentBatchId := next, batchOpen := (batchOpen s)(next := True)\<rparr>)))"

definition closeCurrentBatch :: "env \<Rightarrow> storage \<Rightarrow> outcome" where
  "closeCurrentBatch e =
     onlyOwner e (\<lambda>s.
       if \<not> batchOpen s (currentBatchId s) then Revert InvalidArgument s
       else Return (emit (BatchClosed (currentBatchId s))
                      (s\<lparr>batchOpen := (batchOpen s)(currentBatchId s := False)\<rparr>)))"

subsection \<open>Provider operations and the decryption callback\<close>

definition hashCiphertexts :: "fhe \<Rightarrow> env \<Rightarrow> euint32 list \<Rightarrow> bytes32" where
  "hashCiphertexts L e cts = keccak256_encode L (map (toBytes32 L) cts) (this_address e)"

definition submitEncryptedResources :: "fhe \<Rightarrow> env \<Rightarrow> euint32 \<Rightarrow> euint32 \<Rightarrow> storage \<Rightarrow> outcome" where
  "submitEncryptedResources L e encTotal encRate =
     onlyProvider e (whenNotPaused (checkCooldown e (msg_sender e) (\<lambda>s.
       if \<not> batchOpen s (currentBatchId s) then Revert BatchNotOpen s
       else if \<not> isInitialized L encTotal then Revert InvalidArgument s
       else if \<not> isInitialized L encRate then Revert InvalidArgument s
       else
         Return (emit (ResourcesSubmitted (msg_sender e) (currentBatchId s) (toBytes32 L encTotal) (toBytes32 L encRate))
           (s\<lparr>playerData := (playerData s)(currentBatchId s :=
                  (playerData s (currentBatchId s))(msg_sender e :=
                     \<lparr>encryptedTotalResources = encTotal, encryptedCollectionRate = encRate\<rparr>)),
               lastSubmissionTime := (lastSubmissionTime s)(msg_sender e := block_timestamp e)\<rparr>)))))"

definition requestDecryptionForPlayer :: "fhe \<Rightarrow> env \<Rightarrow> address \<Rightarrow> storage \<Rightarrow> outcome" where
  "requestDecryptionForPlayer L e playerAddress =
     onlyProvider e (whenNotPaused (checkCooldown e (msg_sender e) (\<lambda>s.
       if \<not> batchOpen s (currentBatchId s) then Revert BatchNotOpen s
       else
         let data = playerData s (currentBatchId s) playerAddress in
         if \<not> isInitialized L (encryptedTotalResources data) \<or> \<not> isInitialized L (encryptedCollectionRate data)
         then Revert InvalidArgument s
         else
           let ctsArray = [encryptedTotalResources data, encryptedCollectionRate data];
               hash = hashCiphertexts L e ctsArray
           in case fhe_requestDecryption e of
                None \<Rightarrow> Revert LibraryRevert s
              | Some requestId \<Rightarrow>
                  Return (emit (DecryptionRequested requestId (currentBatchId s))
                    (s\<lparr>decryptionContexts := (decryptionContexts s)(requestId :=
                           \<lparr>batchId = currentBatchId s, stateHash = hash, processed = False\<rparr>),
                        lastDecryptionRequestTime :=
                           (lastDecryptionRequestTime s)(msg_sender e := block_timestamp e)\<rparr>)))))"

definition myCallback :: "fhe \<Rightarrow> env \<Rightarrow> uint256 \<Rightarrow> bytes \<Rightarrow> bytes \<Rightarrow> storage \<Rightarrow> outcome" where
  "myCallback L e requestId cleartexts decryptionProof s =
     (if processed (decryptionContexts s requestId) then Revert ReplayAttempt s
      else
        let data = playerData s (batchId (decryptionContexts s requestId)) (msg_sender e);
            ctsArray = [encryptedTotalResources data, encryptedCollectionRate data];
            currentHash = hashCiphertexts L e ctsArray
        in if currentHash \<noteq> stateHash (decryptionContexts s requestId) then Revert StateMismatch s
           else if \<not> fhe_checkSignatures e requestId cleartexts decryptionProof then Revert LibraryRevert s
           else case decode_at cleartexts 0 32 of
                  None \<Rightarrow> Revert DecodeRevert s
                | Some totalResources \<Rightarrow>
                   (case decode_at cleartexts 32 64 of
                      None \<Rightarrow> Revert DecodeRevert s
                    | Some collectionRate \<Rightarrow>
                        let s1 = s\<lparr>decryptionContexts := (decryptionContexts s)(requestId :=
                                     (decryptionContexts s requestId)\<lparr>processed := True\<rparr>)\<rparr>
                        in Return (emit (DecryptionCompleted requestId
                                           (batchId (decryptionContexts s1 requestId))
                                           totalResources collectionRate) s1)))"

subsection \<open>Transactions\<close>

datatype call =
    AddProvider address
  | RemoveProvider address
  | SetCooldownSeconds uint32
  | Pause
  | Unpause
  | OpenNewBatch
  | CloseCurrentBatch
  | SubmitEncryptedResources euint32 euint32
  | RequestDecryptionForPlayer address
  | MyCallback uint256 bytes bytes

fun exec :: "fhe \<Rightarrow> env \<Rightarrow> call \<Rightarrow> storage \<Rightarrow> outcome" where
  "exec L e (AddProvider p) s = addProvider e p s"
| "exec L e (RemoveProvider p) s = removeProvider e p s"
| "exec L e (SetCooldownSeconds c) s = setCooldownSeconds e c s"
| "exec L e Pause s = pause e s"
| "exec L e Unpause s = unpause e s"
| "exec L e OpenNewBatch s = openNewBatch e s"
| "exec L e CloseCurrentBatch s = closeCurrentBatch e s"
| "exec L e (SubmitEncryptedResources t r) s = submitEncryptedResources L e t r s"
| "exec L e (RequestDecryptionForPlayer p) s = requestDecryptionForPlayer L e p s"
| "exec L e (MyCallback rid ct pf) s = myCallback L e rid ct pf s"

text \<open>The storage a call leaves behind: the platform discards whatever a reverted call wrote.\<close>

fun commit :: "outcome \<Rightarrow> storage \<Rightarrow> storage" where
  "commit (Revert err _) s = s"
| "commit (Return s') s = s'"

fun run :: "fhe \<Rightarrow> (env \<times> call) list \<Rightarrow> storage \<Rightarrow> storage" where
  "run L [] s = s"
| "run L ((e, c) # txs) s = run L txs (commit (exec L e c s) s)"

fun succeeded :: "outcome \<Rightarrow> bool" where
  "succeeded (Return _) = True"
| "succeeded (Revert _ _) = False"

fun failure :: "outcome \<Rightarrow> error option" where
  "failure (Return _) = None"
| "failure (Revert err _) = Some err"

text \<open>The nine failure conditions the specification names.\<close>

fun named_failure :: "error \<Rightarrow> bool" where
  "named_failure NotOwner = True"
| "named_failure NotProvider = True"
| "named_failure Paused = True"
| "named_failure CooldownActive = True"
| "named_failure InvalidArgument = True"
| "named_failure BatchNotOpen = True"
| "named_failure ReplayAttempt = True"
| "named_failure StateMismatch = True"
| "named_failure InvalidProof = True"
| "named_failure _ = False"

text \<open>
  \<open>reissues rid tx\<close>: the transaction is a decryption request during which the external
  service hands out the request id \<open>rid\<close>. \<open>fresh_for rid txs\<close>: no transaction of
  \<open>txs\<close> does.
\<close>

fun reissues :: "uint256 \<Rightarrow> env \<times> call \<Rightarrow> bool" where
  "reissues rid (e, RequestDecryptionForPlayer p) = (fhe_requestDecryption e = Some rid)"
| "reissues rid (e, c) = False"

fun fresh_for :: "uint256 \<Rightarrow> (env \<times> call) list \<Rightarrow> bool" where
  "fresh_for rid [] = True"
| "fresh_for rid (tx # txs) = (\<not> reissues rid tx \<and> fresh_for rid txs)"

subsection \<open>The callback as the specification words it\<close>

text \<open>
  The specification's sentence on the callback, taken literally: recompute the hash and
  reject a mismatch, verify the proof, reject a replay, then decode, mark the context
  processed and emit the result. It is here to be compared with \<open>myCallback\<close>.
\<close>

definition myCallback_as_described :: "fhe \<Rightarrow> env \<Rightarrow> uint256 \<Rightarrow> bytes \<Rightarrow> bytes \<Rightarrow> storage \<Rightarrow> outcome" where
  "myCallback_as_described L e requestId cleartexts decryptionProof s =
     (let data = playerData s (batchId (decryptionContexts s requestId)) (msg_sender e);
          ctsArray = [encryptedTotalResources data, encryptedCollectionRate data];
          currentHash = hashCiphertexts L e ctsArray
      in if currentHash \<noteq> stateHash (decryptionContexts s requestId) then Revert StateMismatch s
         else if \<not> fhe_checkSignatures e requestId cleartexts decryptionProof then Revert LibraryRevert s
         else if processed (decryptionContexts s requestId) then Revert ReplayAttempt s
         else case decode_at cleartexts 0 32 of
                None \<Rightarrow> Revert DecodeRevert s
              | Some totalResources \<Rightarrow>
                 (case decode_at cleartexts 32 64 of
                    None \<Rightarrow> Revert DecodeRevert s
                  | Some collectionRate \<Rightarrow>
                      let s1 = s\<lparr>decryptionContexts := (decryptionContexts s)(requestId :=
                                   (decryptionContexts s requestId)\<lparr>processed := True\<rparr>)\<rparr>
                      in Return (emit (DecryptionCompleted requestId
                                         (batchId (decryptionContexts s1 requestId))
                                         totalResources collectionRate) s1)))"

subsection \<open>A sample deployment\<close>

text \<open>
  Concrete inputs on which the theorems below are exercised. The library parameters are
  instantiated with a handle that is initialised when non-zero and a toy hash; address 1
  deploys the contract, address 2 becomes a provider, address 3 never does.
\<close>

definition sample_fhe :: fhe where
  "sample_fhe = \<lparr>isInitialized = (\<lambda>v. v \<noteq> 0), toBytes32 = (\<lambda>v. v),
     keccak256_encode = (\<lambda>cts a. foldr (\<lambda>c h. c + 31 * h) cts (ucast a))\<rparr>"

definition acting :: "address \<Rightarrow> uint256 \<Rightarrow> env" where
  "acting who t = \<lparr>msg_sender = who, block_timestamp = t, this_address = 4096,
     fhe_requestDecryption = None, fhe_checkSignatures = (\<lambda>_ _ _. True)\<rparr>"

definition answering :: "uint256 \<Rightarrow> env \<Rightarrow> env" where
  "answering rid e = e\<lparr>fhe_requestDecryption := Some rid\<rparr>"

text \<open>Two 32-byte big-endian words: 5 and 9.\<close>

definition sample_cleartexts :: bytes where
  "sample_cleartexts = replicate 31 0 @ [5] @ replicate 31 0 @ [9]"

definition st_deployed :: storage where
  "st_deployed = constructor (acting 1 1000)"

definition st_provider :: storage where
  "st_provider = commit (addProvider (acting 1 1001) 2 st_deployed) st_deployed"

definition st_submitted :: storage where
  "st_submitted =
     commit (submitEncryptedResources sample_fhe (acting 2 1002) 11 12 st_provider) st_provider"

definition st_requested :: storage where
  "st_requested =
     commit (requestDecryptionForPlayer sample_fhe (answering 7 (acting 2 1040)) 2 st_submitted) st_submitted"

definition st_completed :: storage where
  "st_completed =
     commit (myCallback sample_fhe (acting 2 1050) 7 sample_cleartexts [] st_requested) st_requested"

definition st_resubmitted :: storage where
  "st_resubmitted =
     commit (submitEncryptedResources sample_fhe (acting 2 1090) 21 22 st_completed) st_completed"

definition st_removed :: storage where
  "st_removed = commit (removeProvider (acting 1 1005) 2 st_submitted) st_submitted"

definition st_closed :: storage where
  "st_closed = commit (closeCurrentBatch (acting 1 1005) st_submitted) st_submitted"

definition st_paused :: storage where
  "st_paused = commit (pause (acting 1 1005) st_submitted) st_submitted"

section \<open>Unfolding and evaluation lemmas\<close>

lemmas modifier_defs = onlyOwner_def onlyProvider_def whenNotPaused_def checkCooldown_def

lemmas op_defs = addProvider_def removeProvider_def setCooldownSeconds_def pause_def unpause_def
  openNewBatch_def closeCurrentBatch_def submitEncryptedResources_def
  requestDecryptionForPlayer_def myCallback_def

lemma sample_cleartexts_eq: "sample_cleartexts =
  [0,0,0,0,0,0,0,0, 0,0,0,0,0,0,0,0, 0,0,0,0,0,0,0,0, 0,0,0,0,0,0,0,5,
   0,0,0,0,0,0,0,0, 0,0,0,0,0,0,0,0, 0,0,0,0,0,0,0,0, 0,0,0,0,0,0,0,9]"
  unfolding sample_cleartexts_def by code_simp

lemma decode_sample:
  "decode_at sample_cleartexts 0 32 = Some 5" "decode_at sample_cleartexts 32 64 = Some 9"
  by (simp_all add: decode_at_def bytes_slice_def abi_decode_uint32_def be_nat_def sample_cleartexts_eq)

lemma st_provider_facts:
  "owner st_provider = 1" "isProvider st_provider = (\<lambda>_. False)(2 := True)" "\<not> paused st_provider"
  "cooldownSeconds st_provider = 30" "currentBatchId st_provider = 1"
  "batchOpen st_provider = (\<lambda>_. False)(1 := True)"
  "lastSubmissionTime st_provider = (\<lambda>_. 0)"
  "decryptionContexts st_provider = (\<lambda>_. \<lparr>batchId = 0, stateHash = 0, processed = False\<rparr>)"
  by (simp_all add: st_provider_def st_deployed_def constructor_def acting_def addProvider_def
      onlyOwner_def emit_def)

lemma st_submitted_step:
  "submitEncryptedResources sample_fhe (acting 2 1002) 11 12 st_provider =
   Return (emit (ResourcesSubmitted 2 1 11 12)
     (st_provider\<lparr>playerData := (playerData st_provider)(1 :=
         (playerData st_provider 1)(2 := \<lparr>encryptedTotalResources = 11, encryptedCollectionRate = 12\<rparr>)),
       lastSubmissionTime := (lastSubmissionTime st_provider)(2 := 1002)\<rparr>))"
  by (simp add: submitEncryptedResources_def modifier_defs st_provider_facts acting_def
      sample_fhe_def checked_add_def)

lemma st_submitted_facts:
  "owner st_submitted = 1" "isProvider st_submitted = (\<lambda>_. False)(2 := True)" "\<not> paused st_submitted"
  "cooldownSeconds st_submitted = 30" "currentBatchId st_submitted = 1"
  "batchOpen st_submitted = (\<lambda>_. False)(1 := True)"
  "lastSubmissionTime st_submitted 2 = 1002"
  "playerData st_submitted 1 2 = \<lparr>encryptedTotalResources = 11, encryptedCollectionRate = 12\<rparr>"
  "decryptionContexts st_submitted = (\<lambda>_. \<lparr>batchId = 0, stateHash = 0, processed = False\<rparr>)"
  by (simp_all add: st_submitted_def st_submitted_step emit_def st_provider_facts)

lemma st_requested_step:
  "requestDecryptionForPlayer sample_fhe (answering 7 (acting 2 1040)) 2 st_submitted =
   Return (emit (DecryptionRequested 7 1)
     (st_submitted\<lparr>decryptionContexts := (decryptionContexts st_submitted)(7 :=
         \<lparr>batchId = 1, stateHash = 3936639, processed = False\<rparr>),
       lastDecryptionRequestTime := (lastDecryptionRequestTime st_submitted)(2 := 1040)\<rparr>))"
  by (simp add: requestDecryptionForPlayer_def modifier_defs st_submitted_facts acting_def answering_def
      sample_fhe_def checked_add_def hashCiphertexts_def Let_def)

lemma st_requested_facts:
  "owner st_requested = 1" "isProvider st_requested = (\<lambda>_. False)(2 := True)" "\<not> paused st_requested"
  "cooldownSeconds st_requested = 30" "currentBatchId st_requested = 1"
  "batchOpen st_requested = (\<lambda>_. False)(1 := True)"
  "lastSubmissionTime st_requested 2 = 1002"
  "lastDecryptionRequestTime st_requested 2 = 1040"
  "playerData st_requested 1 2 = \<lparr>encryptedTotalResources = 11, encryptedCollectionRate = 12\<rparr>"
  "decryptionContexts st_requested 7 = \<lparr>batchId = 1, stateHash = 3936639, processed = False\<rparr>"
  by (simp_all add: st_requested_def st_requested_step emit_def st_submitted_facts)

lemma st_completed_step:
  "myCallback sample_fhe (acting 2 1050) 7 sample_cleartexts [] st_requested =
   Return (emit (DecryptionCompleted 7 1 5 9)
     (st_requested\<lparr>decryptionContexts := (decryptionContexts st_requested)(7 :=
         \<lparr>batchId = 1, stateHash = 3936639, processed = True\<rparr>)\<rparr>))"
  by (simp add: myCallback_def st_requested_facts acting_def sample_fhe_def hashCiphertexts_def
      decode_sample Let_def)

lemma st_completed_facts:
  "owner st_completed = 1" "isProvider st_completed = (\<lambda>_. False)(2 := True)" "\<not> paused st_completed"
  "cooldownSeconds st_completed = 30" "currentBatchId st_completed = 1"
  "batchOpen st_completed = (\<lambda>_. False)(1 := True)"
  "lastSubmissionTime st_completed 2 = 1002"
  "playerData st_completed 1 2 = \<lparr>encryptedTotalResources = 11, encryptedCollectionRate = 12\<rparr>"
  "decryptionContexts st_completed 7 = \<lparr>batchId = 1, stateHash = 3936639, processed = True\<rparr>"
  by (simp_all add: st_completed_def st_completed_step emit_def st_requested_facts)

lemma st_resubmitted_step:
  "submitEncryptedResources sample_fhe (acting 2 1090) 21 22 st_completed =
   Return (emit (ResourcesSubmitted 2 1 21 22)
     (st_completed\<lparr>playerData := (playerData st_completed)(1 :=
         (playerData st_completed 1)(2 := \<lparr>encryptedTotalResources = 21, encryptedCollectionRate = 22\<rparr>)),
       lastSubmissionTime := (lastSubmissionTime st_completed)(2 := 1090)\<rparr>))"
  by (simp add: submitEncryptedResources_def modifier_defs st_completed_facts acting_def
      sample_fhe_def checked_add_def)

lemma st_resubmitted_facts:
  "playerData st_resubmitted 1 2 = \<lparr>encryptedTotalResources = 21, encryptedCollectionRate = 22\<rparr>"
  "decryptionContexts st_resubmitted 7 = \<lparr>batchId = 1, stateHash = 3936639, processed = True\<rparr>"
  by (simp_all add: st_resubmitted_def st_resubmitted_step emit_def st_completed_facts)

lemma st_removed_facts:
  "isProvider st_removed 2 = False" "lastSubmissionTime st_removed 2 = 1002"
  "cooldownSeconds st_removed = 30" "\<not> paused st_removed"
  by (simp_all add: st_removed_def removeProvider_def onlyOwner_def acting_def emit_def st_submitted_facts)

lemma st_closed_facts:
  "isProvider st_closed 2" "lastSubmissionTime st_closed 2 = 1002"
  "cooldownSeconds st_closed = 30" "\<not> paused st_closed" "\<not> batchOpen st_closed (currentBatchId st_closed)"
  by (simp_all add: st_closed_def closeCurrentBatch_def onlyOwner_def acting_def emit_def st_submitted_facts)

lemma st_paused_facts:
  "isProvider st_paused 2" "\<not> isProvider st_paused 3" "paused st_paused"
  by (simp_all add: st_paused_def pause_def onlyOwner_def whenNotPaused_def acting_def emit_def st_submitted_facts)

lemma acting_simps:
  "msg_sender (acting who t) = who" "block_timestamp (acting who t) = t"
  "this_address (acting who t) = 4096" "fhe_requestDecryption (acting who t) = None"
  "fhe_checkSignatures (acting who t) rid ct pf"
  "msg_sender (answering r e) = msg_sender e" "block_timestamp (answering r e) = block_timestamp e"
  "this_address (answering r e) = this_address e" "fhe_requestDecryption (answering r e) = Some r"
  by (simp_all add: acting_def answering_def)

lemma checked_add_sum:
  assumes "checked_add a b = Some c"
  shows "unat c = unat a + unat b"
proof (cases "unat a + unat b < 2 ^ 256")
  case True
  with assms have "c = a + b" by (simp add: checked_add_def)
  with True show ?thesis by (simp add: unat_word_ariths)
next
  case False
  with assms show ?thesis by (simp add: checked_add_def)
qed

lemma checked_add_one_less: "checked_add a 1 = Some c \<Longrightarrow> a < c"
  by (drule checked_add_sum) (simp add: word_less_nat_alt)

section \<open>Access control and pausing\<close>

text \<open>
  C5. A caller that is not on the provider allow-list gets \<open>NotProvider\<close> from both
  \<open>submitEncryptedResources\<close> and \<open>requestDecryptionForPlayer\<close>, whatever the rest of
  the state and the arguments are; a caller on the list never gets \<open>NotProvider\<close> from
  either.
\<close>

theorem provider_gate:
  "(\<not> isProvider s (msg_sender e) \<longrightarrow>
      submitEncryptedResources L e encTotal encRate s = Revert NotProvider s \<and>
      requestDecryptionForPlayer L e playerAddress s = Revert NotProvider s) \<and>
   (isProvider s (msg_sender e) \<longrightarrow>
      failure (submitEncryptedResources L e encTotal encRate s) \<noteq> Some NotProvider \<and>
      failure (requestDecryptionForPlayer L e playerAddress s) \<noteq> Some NotProvider)"
  by (auto simp: submitEncryptedResources_def requestDecryptionForPlayer_def modifier_defs Let_def
      split: option.splits)

text \<open>
  C5 on the sample deployment: address 3 is turned away from both functions, provider 2
  is not.
\<close>

theorem provider_gate_witness:
  "submitEncryptedResources sample_fhe (acting 3 1010) 11 12 st_provider = Revert NotProvider st_provider \<and>
   requestDecryptionForPlayer sample_fhe (acting 3 1010) 2 st_provider = Revert NotProvider st_provider \<and>
   failure (submitEncryptedResources sample_fhe (acting 2 1010) 11 12 st_provider) \<noteq> Some NotProvider \<and>
   failure (requestDecryptionForPlayer sample_fhe (acting 2 1010) 2 st_provider) \<noteq> Some NotProvider"
  using provider_gate [where s = st_provider and e = "acting 3 1010" and L = sample_fhe
          and encTotal = 11 and encRate = 12 and playerAddress = 2]
        provider_gate [where s = st_provider and e = "acting 2 1010" and L = sample_fhe
          and encTotal = 11 and encRate = 12 and playerAddress = 2]
  by (simp add: acting_simps st_provider_facts)

text \<open>
  C6, as stated, fails: while the contract is paused, a caller that is not a provider is
  turned away by \<open>onlyProvider\<close>, which runs before \<open>whenNotPaused\<close>, and so gets
  \<open>NotProvider\<close> rather than \<open>Paused\<close>.
\<close>

theorem paused_counterexample:
  "paused st_paused \<and>
   submitEncryptedResources sample_fhe (acting 3 1010) 11 12 st_paused \<noteq> Revert Paused st_paused \<and>
   submitEncryptedResources sample_fhe (acting 3 1010) 11 12 st_paused = Revert NotProvider st_paused"
  by (simp add: submitEncryptedResources_def onlyProvider_def acting_simps st_paused_facts)

text \<open>
  C6, amended. While the contract is paused, \<open>submitEncryptedResources\<close> and
  \<open>requestDecryptionForPlayer\<close> revert for every caller and every argument: with
  \<open>Paused\<close> when the caller is on the provider allow-list, with \<open>NotProvider\<close> when
  it is not.
\<close>

theorem paused_gate:
  assumes "paused s"
  shows "(isProvider s (msg_sender e) \<longrightarrow>
            submitEncryptedResources L e encTotal encRate s = Revert Paused s \<and>
            requestDecryptionForPlayer L e playerAddress s = Revert Paused s) \<and>
         (\<not> isProvider s (msg_sender e) \<longrightarrow>
            submitEncryptedResources L e encTotal encRate s = Revert NotProvider s \<and>
            requestDecryptionForPlayer L e playerAddress s = Revert NotProvider s)"
  using assms
  by (simp add: submitEncryptedResources_def requestDecryptionForPlayer_def onlyProvider_def
      whenNotPaused_def)

text \<open>
  C6, amended, on the sample deployment after the owner paused it: provider 2 gets
  \<open>Paused\<close>, address 3 gets \<open>NotProvider\<close>.
\<close>

theorem paused_gate_witness:
  "paused st_paused \<and>
   submitEncryptedResources sample_fhe (acting 2 1010) 11 12 st_paused = Revert Paused st_paused \<and>
   requestDecryptionForPlayer sample_fhe (acting 2 1010) 2 st_paused = Revert Paused st_paused \<and>
   requestDecryptionForPlayer sample_fhe (acting 3 1010) 2 st_paused = Revert NotProvider st_paused"
proof -
  have p: "paused st_paused" by (simp add: st_paused_facts)
  from paused_gate [OF p, where e = "acting 2 1010" and L = sample_fhe
         and encTotal = 11 and encRate = 12 and playerAddress = 2]
       paused_gate [OF p, where e = "acting 3 1010" and L = sample_fhe
         and encTotal = 11 and encRate = 12 and playerAddress = 2] p
  show ?thesis by (simp add: acting_simps st_paused_facts)
qed

text \<open>
  C10. \<open>myCallback\<close> carries none of the modifiers: it never reverts with
  \<open>NotProvider\<close>, \<open>Paused\<close> or \<open>CooldownActive\<close>, and whether and how it fails
  does not depend on the allow-list, the pause flag, the submission times or the cooldown
  length.
\<close>

theorem callback_ungated:
  "failure (myCallback L e requestId cleartexts decryptionProof s) \<noteq> Some NotProvider \<and>
   failure (myCallback L e requestId cleartexts decryptionProof s) \<noteq> Some Paused \<and>
   failure (myCallback L e requestId cleartexts decryptionProof s) \<noteq> Some CooldownActive \<and>
   failure (myCallback L e requestId cleartexts decryptionProof
      (s\<lparr>isProvider := providers, paused := flag, lastSubmissionTime := stamps, cooldownSeconds := window\<rparr>)) =
   failure (myCallback L e requestId cleartexts decryptionProof s)"
  by (auto simp: myCallback_def Let_def split: option.splits)

text \<open>
  C10 on the sample deployment: the callback for request 7 goes through although the
  contract is paused, the allow-list is empty and the caller's cooldown has just begun.
\<close>

theorem callback_ungated_witness:
  "failure (myCallback sample_fhe (acting 2 1050) 7 sample_cleartexts []
      (st_requested\<lparr>isProvider := isProvider st_deployed, paused := True,
          lastSubmissionTime := lastDecryptionRequestTime st_requested,
          cooldownSeconds := 4000\<rparr>)) = None"
  using callback_ungated [where L = sample_fhe and e = "acting 2 1050" and requestId = 7
      and cleartexts = sample_cleartexts and decryptionProof = "[]" and s = st_requested
      and providers = "isProvider st_deployed" and flag = True
      and stamps = "lastDecryptionRequestTime st_requested" and window = 4000]
  by (simp add: st_completed_step)

section \<open>Atomic failure\<close>

lemma revert_keeps_storage: "exec L e c s = Revert err s' \<Longrightarrow> s' = s"
  by (cases c) (auto simp: op_defs modifier_defs Let_def split: option.splits if_splits)

text \<open>
  C8. When a call reverts with one of the nine named failure conditions, the storage at
  the point of the revert is the storage before the call: every check of every function
  comes before its first write. The storage the call leaves behind is therefore the one
  it started from.
\<close>

theorem named_failure_atomic:
  assumes "exec L e c s = Revert err s'" and "named_failure err"
  shows "s' = s \<and> commit (exec L e c s) s = s"
  using assms by (simp add: revert_keeps_storage)

text \<open>
  C8 on the sample deployment: address 3, not the owner, tries to add itself as a
  provider.
\<close>

theorem named_failure_atomic_witness:
  "exec sample_fhe (acting 3 1010) (AddProvider 3) st_provider = Revert NotOwner st_provider \<and>
   named_failure NotOwner \<and>
   commit (exec sample_fhe (acting 3 1010) (AddProvider 3) st_provider) st_provider = st_provider"
proof -
  have h: "exec sample_fhe (acting 3 1010) (AddProvider 3) st_provider = Revert NotOwner st_provider"
    by (simp add: addProvider_def onlyOwner_def acting_simps st_provider_facts)
  have n: "named_failure NotOwner" by simp
  from named_failure_atomic [OF h n] h n show ?thesis by blast
qed

section \<open>The cooldown\<close>

text \<open>
  C3, as stated, fails in both halves. A sender that submitted and was then taken off the
  allow-list gets \<open>NotProvider\<close>, not \<open>CooldownActive\<close>, inside its window; a provider
  whose window has passed gets \<open>BatchNotOpen\<close> once the current batch is closed.
\<close>

theorem cooldown_counterexample:
  "lastSubmissionTime st_removed 2 = 1002 \<and> cooldownSeconds st_removed = 30 \<and>
   submitEncryptedResources sample_fhe (acting 2 1010) 21 22 st_removed = Revert NotProvider st_removed \<and>
   lastSubmissionTime st_closed 2 = 1002 \<and> cooldownSeconds st_closed = 30 \<and>
   submitEncryptedResources sample_fhe (acting 2 2000) 21 22 st_closed = Revert BatchNotOpen st_closed"
  by (simp add: submitEncryptedResources_def modifier_defs acting_simps st_removed_facts st_closed_facts
      checked_add_def)

lemma window_end:
  fixes last :: uint256 and cd :: uint32
  assumes "unat last + unat cd < 2 ^ 256"
  shows "checked_add last (ucast cd) = Some (last + ucast cd)"
    and "unat (last + ucast cd) = unat last + unat cd"
proof -
  have "unat cd < 2 ^ 32"
    using unsigned_less [of cd] by simp
  also have "\<dots> < (2::nat) ^ 256" by simp
  finally have u: "unat (ucast cd :: uint256) = unat cd"
    by (simp add: unsigned_ucast_eq take_bit_nat_eq_self)
  with assms show "checked_add last (ucast cd) = Some (last + ucast cd)"
    by (simp add: checked_add_def)
  from assms u show "unat (last + ucast cd) = unat last + unat cd"
    by (simp add: unat_word_ariths)
qed

text \<open>
  C3, amended. For a sender on the allow-list, while the contract is not paused and the
  end of the window (last submission time plus \<open>cooldownSeconds\<close>) fits in 256 bits:
  \<open>submitEncryptedResources\<close> before the end of the window reverts with
  \<open>CooldownActive\<close>; at or after it the call never reverts with \<open>CooldownActive\<close>, and
  it succeeds, recording the two handles and the block time, when the current batch is
  open and both handles are initialised.
\<close>

theorem submit_cooldown_window:
  assumes "isProvider s (msg_sender e)" and "\<not> paused s"
      and "unat (lastSubmissionTime s (msg_sender e)) + unat (cooldownSeconds s) < 2 ^ 256"
  shows "(unat (block_timestamp e) < unat (lastSubmissionTime s (msg_sender e)) + unat (cooldownSeconds s) \<longrightarrow>
            submitEncryptedResources L e encTotal encRate s = Revert CooldownActive s) \<and>
         (unat (lastSubmissionTime s (msg_sender e)) + unat (cooldownSeconds s) \<le> unat (block_timestamp e) \<longrightarrow>
            failure (submitEncryptedResources L e encTotal encRate s) \<noteq> Some CooldownActive) \<and>
         (unat (lastSubmissionTime s (msg_sender e)) + unat (cooldownSeconds s) \<le> unat (block_timestamp e) \<and>
          batchOpen s (currentBatchId s) \<and> isInitialized L encTotal \<and> isInitialized L encRate \<longrightarrow>
            submitEncryptedResources L e encTotal encRate s =
              Return (emit (ResourcesSubmitted (msg_sender e) (currentBatchId s)
                              (toBytes32 L encTotal) (toBytes32 L encRate))
                (s\<lparr>playerData := (playerData s)(currentBatchId s :=
                       (playerData s (currentBatchId s))(msg_sender e :=
                          \<lparr>encryptedTotalResources = encTotal, encryptedCollectionRate = encRate\<rparr>)),
                    lastSubmissionTime := (lastSubmissionTime s)(msg_sender e := block_timestamp e)\<rparr>)))"
proof -
  note w = window_end [OF assms(3)]
  have lt: "block_timestamp e < lastSubmissionTime s (msg_sender e) + ucast (cooldownSeconds s) \<longleftrightarrow>
      unat (block_timestamp e) < unat (lastSubmissionTime s (msg_sender e)) + unat (cooldownSeconds s)"
    by (simp add: word_less_nat_alt w(2))
  show ?thesis
    using assms(1,2)
    by (auto simp: submitEncryptedResources_def modifier_defs w(1) lt)
qed

text \<open>
  C3, amended, on the sample deployment: provider 2 submitted at time 1002 with a cooldown
  of 30, so times 1010 and 1031 are refused and time 1032 is accepted.
\<close>

theorem submit_cooldown_window_witness:
  "submitEncryptedResources sample_fhe (acting 2 1010) 21 22 st_submitted =
     Revert CooldownActive st_submitted \<and>
   submitEncryptedResources sample_fhe (acting 2 1031) 21 22 st_submitted =
     Revert CooldownActive st_submitted \<and>
   succeeded (submitEncryptedResources sample_fhe (acting 2 1032) 21 22 st_submitted)"
proof -
  have p: "isProvider st_submitted (msg_sender (acting 2 t))" for t
    by (simp add: acting_simps st_submitted_facts)
  have n: "\<not> paused st_submitted" by (simp add: st_submitted_facts)
  have b: "unat (lastSubmissionTime st_submitted (msg_sender (acting 2 t))) +
      unat (cooldownSeconds st_submitted) < 2 ^ 256" for t
    by (simp add: acting_simps st_submitted_facts)
  from submit_cooldown_window [OF p n b, where L = sample_fhe and encTotal = 21 and encRate = 22 and t1 = 1010]
    submit_cooldown_window [OF p n b, where L = sample_fhe and encTotal = 21 and encRate = 22 and t1 = 1031]
    submit_cooldown_window [OF p n b, where L = sample_fhe and encTotal = 21 and encRate = 22 and t1 = 1032]
  show ?thesis
    by (simp add: acting_simps st_submitted_facts sample_fhe_def)
qed

text \<open>
  The same window, counted from the last submission, holds back decryption requests.
\<close>

lemma request_in_window_refused:
  assumes "isProvider s (msg_sender e)" and "\<not> paused s"
      and "unat (lastSubmissionTime s (msg_sender e)) + unat (cooldownSeconds s) < 2 ^ 256"
      and "unat (block_timestamp e) < unat (lastSubmissionTime s (msg_sender e)) + unat (cooldownSeconds s)"
  shows "requestDecryptionForPlayer L e playerAddress s = Revert CooldownActive s"
proof -
  note w = window_end [OF assms(3)]
  from assms(4) have "block_timestamp e < lastSubmissionTime s (msg_sender e) + ucast (cooldownSeconds s)"
    by (simp add: word_less_nat_alt w(2))
  with assms(1,2) show ?thesis
    by (simp add: requestDecryptionForPlayer_def modifier_defs w(1))
qed

lemma request_Return_fields:
  assumes "requestDecryptionForPlayer L e p s = Return s1"
  shows "isProvider s1 = isProvider s" "paused s1 = paused s"
    "lastSubmissionTime s1 = lastSubmissionTime s" "cooldownSeconds s1 = cooldownSeconds s"
    "batchOpen s1 = batchOpen s" "currentBatchId s1 = currentBatchId s" "playerData s1 = playerData s"
    "lastDecryptionRequestTime s1 (msg_sender e) = block_timestamp e"
  using assms
  by (auto simp: requestDecryptionForPlayer_def modifier_defs emit_def Let_def
      split: option.splits if_splits)

text \<open>
  C4. The claim wants the window to restart at a decryption request as well. The code
  records \<open>lastDecryptionRequestTime\<close>, but \<open>checkCooldown\<close> reads only
  \<open>lastSubmissionTime\<close>, which a request leaves as it is: after a successful request,
  the same sender's next request, at the same or any later time, is never refused with
  \<open>CooldownActive\<close>, and it succeeds for the same player whenever the decryption service
  answers.
\<close>

theorem repeat_request_not_throttled:
  assumes "requestDecryptionForPlayer L e playerAddress s = Return s1"
      and "msg_sender e' = msg_sender e"
      and "block_timestamp e \<le> block_timestamp e'"
      and "fhe_requestDecryption e' = Some requestId'"
  shows "lastDecryptionRequestTime s1 (msg_sender e) = block_timestamp e \<and>
         lastSubmissionTime s1 = lastSubmissionTime s \<and>
         succeeded (requestDecryptionForPlayer L e' playerAddress s1) \<and>
         failure (requestDecryptionForPlayer L e' otherPlayer s1) \<noteq> Some CooldownActive"
proof -
  note f = request_Return_fields [OF assms(1)]
  from assms(1) obtain windowEnd where
    w: "checked_add (lastSubmissionTime s (msg_sender e)) (ucast (cooldownSeconds s)) = Some windowEnd"
    and t: "\<not> block_timestamp e < windowEnd"
    and g: "isProvider s (msg_sender e)" "\<not> paused s" "batchOpen s (currentBatchId s)"
      "isInitialized L (encryptedTotalResources (playerData s (currentBatchId s) playerAddress))"
      "isInitialized L (encryptedCollectionRate (playerData s (currentBatchId s) playerAddress))"
    by (auto simp: requestDecryptionForPlayer_def modifier_defs Let_def split: option.splits if_splits)
  from t assms(3) have t': "\<not> block_timestamp e' < windowEnd" by simp
  have "succeeded (requestDecryptionForPlayer L e' playerAddress s1)"
    using w t' g assms(2,4)
    by (simp add: requestDecryptionForPlayer_def modifier_defs Let_def f)
  moreover have "failure (requestDecryptionForPlayer L e' otherPlayer s1) \<noteq> Some CooldownActive"
    using w t' g assms(2,4)
    by (simp add: requestDecryptionForPlayer_def modifier_defs Let_def f)
  ultimately show ?thesis using f by simp
qed

text \<open>
  C4 on the sample deployment: provider 2, whose last submission dates from 1002 with a
  cooldown of 30, requests a decryption at 1040 and again at 1041, and both requests
  succeed.
\<close>

theorem repeat_request_not_throttled_witness:
  "requestDecryptionForPlayer sample_fhe (answering 7 (acting 2 1040)) 2 st_submitted = Return st_requested \<and>
   lastDecryptionRequestTime st_requested 2 = 1040 \<and>
   cooldownSeconds st_requested = 30 \<and>
   succeeded (requestDecryptionForPlayer sample_fhe (answering 8 (acting 2 1041)) 2 st_requested)"
proof -
  have first: "requestDecryptionForPlayer sample_fhe (answering 7 (acting 2 1040)) 2 st_submitted =
      Return st_requested"
    by (simp add: st_requested_def st_requested_step)
  have sender: "msg_sender (answering 8 (acting 2 1041)) = msg_sender (answering 7 (acting 2 1040))"
    by (simp add: acting_simps)
  have later: "block_timestamp (answering 7 (acting 2 1040)) \<le> block_timestamp (answering 8 (acting 2 1041))"
    by (simp add: acting_simps)
  have answer: "fhe_requestDecryption (answering 8 (acting 2 1041)) = Some 8"
    by (simp add: acting_simps)
  from repeat_request_not_throttled [OF first sender later answer] first
  show ?thesis by (simp add: acting_simps st_requested_facts)
qed

section \<open>The decryption protocol\<close>

text \<open>
  C7. A successful \<open>requestDecryptionForPlayer\<close> stores, under the request id that the
  decryption service returned, a context with the current batch id, the hash of the target
  player's two stored handles and the contract's own address, and \<open>processed = False\<close>.
\<close>

theorem request_stores_context:
  assumes "requestDecryptionForPlayer L e playerAddress s = Return s'"
  shows "\<exists>requestId. fhe_requestDecryption e = Some requestId \<and>
           decryptionContexts s' requestId =
             \<lparr>batchId = currentBatchId s,
              stateHash = keccak256_encode L
                 [toBytes32 L (encryptedTotalResources (playerData s (currentBatchId s) playerAddress)),
                  toBytes32 L (encryptedCollectionRate (playerData s (currentBatchId s) playerAddress))]
                 (this_address e),
              processed = False\<rparr> \<and>
           events s' = events s @ [DecryptionRequested requestId (currentBatchId s)]"
  using assms
  by (auto simp: requestDecryptionForPlayer_def modifier_defs hashCiphertexts_def emit_def Let_def
      split: option.splits if_splits)

text \<open>
  C7 on the sample deployment: the request of provider 2, answered with id 7.
\<close>

theorem request_stores_context_witness:
  "requestDecryptionForPlayer sample_fhe (answering 7 (acting 2 1040)) 2 st_submitted = Return st_requested \<and>
   decryptionContexts st_requested 7 = \<lparr>batchId = 1, stateHash = 3936639, processed = False\<rparr>"
proof -
  have h: "requestDecryptionForPlayer sample_fhe (answering 7 (acting 2 1040)) 2 st_submitted =
      Return st_requested"
    by (simp add: st_requested_def st_requested_step)
  from request_stores_context [OF h] h show ?thesis
    by (auto simp: acting_simps st_submitted_facts sample_fhe_def)
qed

text \<open>
  C2, as stated, fails: the replay check is the first statement of \<open>myCallback\<close>, not
  the third. Once request 7 is processed and provider 2 has submitted new handles, a second
  callback reverts with \<open>ReplayAttempt\<close>, where the order of the specification gives
  \<open>StateMismatch\<close>.
\<close>

theorem callback_order_counterexample:
  "myCallback sample_fhe (acting 2 1100) 7 sample_cleartexts [] st_resubmitted =
     Revert ReplayAttempt st_resubmitted \<and>
   myCallback_as_described sample_fhe (acting 2 1100) 7 sample_cleartexts [] st_resubmitted =
     Revert StateMismatch st_resubmitted"
  by (simp add: myCallback_def myCallback_as_described_def st_resubmitted_facts acting_simps
      sample_fhe_def hashCiphertexts_def Let_def)

text \<open>
  C2, amended. \<open>myCallback\<close> first reverts with \<open>ReplayAttempt\<close> if the context is
  already processed; then recomputes the hash over the re-fetched handles and reverts with
  \<open>StateMismatch\<close> if it differs from the stored one; then has the proof verified by the
  library, whose refusal reverts the call; then decodes two 32-bit values from the
  cleartext bytes; and then marks the context processed and appends the result event to
  the log of the storage in which the context is already marked.
\<close>

theorem callback_check_order:
  assumes "ctx = decryptionContexts s requestId"
      and "data = playerData s (batchId ctx) (msg_sender e)"
      and "currentHash = hashCiphertexts L e [encryptedTotalResources data, encryptedCollectionRate data]"
  shows "(processed ctx \<longrightarrow>
            myCallback L e requestId cleartexts decryptionProof s = Revert ReplayAttempt s) \<and>
         (\<not> processed ctx \<and> currentHash \<noteq> stateHash ctx \<longrightarrow>
            myCallback L e requestId cleartexts decryptionProof s = Revert StateMismatch s) \<and>
         (\<not> processed ctx \<and> currentHash = stateHash ctx \<and>
          \<not> fhe_checkSignatures e requestId cleartexts decryptionProof \<longrightarrow>
            myCallback L e requestId cleartexts decryptionProof s = Revert LibraryRevert s) \<and>
         (\<not> processed ctx \<and> currentHash = stateHash ctx \<and>
          fhe_checkSignatures e requestId cleartexts decryptionProof \<and>
          (decode_at cleartexts 0 32 = None \<or> decode_at cleartexts 32 64 = None) \<longrightarrow>
            myCallback L e requestId cleartexts decryptionProof s = Revert DecodeRevert s) \<and>
         (\<not> processed ctx \<and> currentHash = stateHash ctx \<and>
          fhe_checkSignatures e requestId cleartexts decryptionProof \<and>
          decode_at cleartexts 0 32 = Some totalResources \<and>
          decode_at cleartexts 32 64 = Some collectionRate \<longrightarrow>
            myCallback L e requestId cleartexts decryptionProof s =
              Return (emit (DecryptionCompleted requestId (batchId ctx) totalResources collectionRate)
                (s\<lparr>decryptionContexts := (decryptionContexts s)(requestId := ctx\<lparr>processed := True\<rparr>)\<rparr>)))"
  using assms by (auto simp: myCallback_def Let_def split: option.splits)

text \<open>
  C2, amended, on the sample deployment: the first callback for request 7 completes with
  the values 5 and 9, the second one is a replay.
\<close>

theorem callback_check_order_witness:
  "myCallback sample_fhe (acting 2 1050) 7 sample_cleartexts [] st_requested =
     Return (emit (DecryptionCompleted 7 1 5 9)
       (st_requested\<lparr>decryptionContexts := (decryptionContexts st_requested)(7 :=
           (decryptionContexts st_requested 7)\<lparr>processed := True\<rparr>)\<rparr>)) \<and>
   myCallback sample_fhe (acting 2 1100) 7 sample_cleartexts [] st_resubmitted =
     Revert ReplayAttempt st_resubmitted"
  using callback_check_order [OF refl refl refl, where L = sample_fhe and e = "acting 2 1050"
      and requestId = 7 and cleartexts = sample_cleartexts and decryptionProof = "[]"
      and s = st_requested and totalResources = 5 and collectionRate = 9]
    callback_check_order [OF refl refl refl, where L = sample_fhe and e = "acting 2 1100"
      and requestId = 7 and cleartexts = sample_cleartexts and decryptionProof = "[]"
      and s = st_resubmitted and totalResources = 5 and collectionRate = 9]
  by (simp add: st_requested_facts st_resubmitted_facts acting_simps sample_fhe_def
      hashCiphertexts_def decode_sample)

lemma processed_step:
  assumes "processed (decryptionContexts s rid)" and "\<not> reissues rid (e, c)"
  shows "processed (decryptionContexts (commit (exec L e c s) s) rid)"
  using assms
  by (cases c) (auto simp: op_defs modifier_defs emit_def Let_def split: option.splits)

lemma processed_run:
  "processed (decryptionContexts s rid) \<Longrightarrow> fresh_for rid txs \<Longrightarrow>
   processed (decryptionContexts (run L txs s) rid)"
proof (induction txs arbitrary: s)
  case Nil
  then show ?case by simp
next
  case (Cons tx txs)
  obtain e c where tx: "tx = (e, c)" by (cases tx)
  from Cons.prems have "processed (decryptionContexts (commit (exec L e c s) s) rid)"
    by (simp add: tx processed_step)
  with Cons.IH Cons.prems show ?case by (simp add: tx)
qed

lemma myCallback_Return_processed:
  "myCallback L e rid ct pf s = Return s1 \<Longrightarrow>
   \<not> processed (decryptionContexts s rid) \<and> processed (decryptionContexts s1 rid)"
  by (auto simp: myCallback_def emit_def Let_def split: option.splits if_splits)

text \<open>
  C1. After a successful \<open>myCallback\<close> for a request id, the context is processed and
  stays so across any later transactions, and every further \<open>myCallback\<close> for that id,
  whoever calls it and whatever it carries, reverts with \<open>ReplayAttempt\<close> on unchanged
  storage. The later transactions are arbitrary but for one assumption on the external
  decryption service: it does not hand out the same request id again
  (\<open>fresh_for\<close>).
\<close>

theorem processed_at_most_once:
  assumes "myCallback L e requestId cleartexts decryptionProof s = Return s1"
      and "fresh_for requestId txs"
  shows "\<not> processed (decryptionContexts s requestId) \<and>
         processed (decryptionContexts s1 requestId) \<and>
         processed (decryptionContexts (run L txs s1) requestId) \<and>
         myCallback L e' requestId cleartexts' decryptionProof' (run L txs s1) =
           Revert ReplayAttempt (run L txs s1) \<and>
         commit (myCallback L e' requestId cleartexts' decryptionProof' (run L txs s1)) (run L txs s1) =
           run L txs s1"
proof -
  from assms(1) have p: "\<not> processed (decryptionContexts s requestId)"
      "processed (decryptionContexts s1 requestId)"
    by (simp_all add: myCallback_Return_processed)
  from p(2) assms(2) have q: "processed (decryptionContexts (run L txs s1) requestId)"
    by (rule processed_run)
  then have "myCallback L e' requestId cleartexts' decryptionProof' (run L txs s1) =
      Revert ReplayAttempt (run L txs s1)"
    by (simp add: myCallback_def)
  with p q show ?thesis by simp
qed

text \<open>
  C1 on the sample deployment: request 7 is completed, provider 2 submits new handles and
  files another request (answered with id 8), and a second callback for 7 is refused.
\<close>

theorem processed_at_most_once_witness:
  "myCallback sample_fhe (acting 2 1050) 7 sample_cleartexts [] st_requested = Return st_completed \<and>
   fresh_for 7 [(acting 2 1090, SubmitEncryptedResources 21 22),
                (answering 8 (acting 2 1095), RequestDecryptionForPlayer 2)] \<and>
   myCallback sample_fhe (acting 2 1100) 7 sample_cleartexts []
     (run sample_fhe [(acting 2 1090, SubmitEncryptedResources 21 22),
                      (answering 8 (acting 2 1095), RequestDecryptionForPlayer 2)] st_completed) =
   Revert ReplayAttempt
     (run sample_fhe [(acting 2 1090, SubmitEncryptedResources 21 22),
                      (answering 8 (acting 2 1095), RequestDecryptionForPlayer 2)] st_completed)"
proof -
  have h: "myCallback sample_fhe (acting 2 1050) 7 sample_cleartexts [] st_requested = Return st_completed"
    by (simp add: st_completed_def st_completed_step)
  have f: "fresh_for 7 [(acting 2 1090, SubmitEncryptedResources 21 22),
                (answering 8 (acting 2 1095), RequestDecryptionForPlayer 2)]"
    by (simp add: acting_simps)
  from processed_at_most_once [OF h f, where e' = "acting 2 1100" and cleartexts' = sample_cleartexts
      and decryptionProof' = "[]"] h f
  show ?thesis by blast
qed

section \<open>Batches\<close>

lemma batch_step:
  "currentBatchId s \<le> currentBatchId (commit (exec L e c s) s) \<and>
   (batchOpen (commit (exec L e c s) s) i \<longrightarrow>
      batchOpen s i \<or> (i = currentBatchId (commit (exec L e c s) s) \<and> currentBatchId s < i))"
  by (cases c) (auto simp: op_defs modifier_defs emit_def Let_def dest: checked_add_one_less split: option.splits)

lemma closed_run:
  "i \<le> currentBatchId s \<Longrightarrow> \<not> batchOpen s i \<Longrightarrow>
   \<not> batchOpen (run L txs s) i \<and> currentBatchId s \<le> currentBatchId (run L txs s)"
proof (induction txs arbitrary: s)
  case Nil
  then show ?case by simp
next
  case (Cons tx txs)
  obtain e c where tx: "tx = (e, c)" by (cases tx)
  let ?s1 = "commit (exec L e c s) s"
  from batch_step [of s L e c i] Cons.prems
  have mono: "currentBatchId s \<le> currentBatchId ?s1" and closed: "\<not> batchOpen ?s1 i"
    by auto
  from mono Cons.prems(1) have "i \<le> currentBatchId ?s1" by simp
  from Cons.IH [OF this closed] mono show ?case by (auto simp: tx)
qed

lemma current_run: "currentBatchId s \<le> currentBatchId (run L txs s)"
proof (induction txs arbitrary: s)
  case Nil
  then show ?case by simp
next
  case (Cons tx txs)
  obtain e c where tx: "tx = (e, c)" by (cases tx)
  from batch_step [of s L e c] have "currentBatchId s \<le> currentBatchId (commit (exec L e c s) s)"
    by simp
  also have "\<dots> \<le> currentBatchId (run L txs (commit (exec L e c s) s))" by (rule Cons.IH)
  finally show ?case by (simp add: tx)
qed

lemma beyond_current_step:
  assumes "\<forall>i. currentBatchId s < i \<longrightarrow> \<not> batchOpen s i"
  shows "\<forall>i. currentBatchId (commit (exec L e c s) s) < i \<longrightarrow> \<not> batchOpen (commit (exec L e c s) s) i"
proof (intro allI impI notI)
  fix i
  assume above: "currentBatchId (commit (exec L e c s) s) < i"
    and "batchOpen (commit (exec L e c s) s) i"
  with batch_step [of s L e c i] have "batchOpen s i" by auto
  moreover from batch_step [of s L e c i] above have "currentBatchId s < i" by auto
  ultimately show False using assms by simp
qed

lemma beyond_current_run:
  "\<forall>i. currentBatchId s < i \<longrightarrow> \<not> batchOpen s i \<Longrightarrow>
   \<forall>i. currentBatchId (run L txs s) < i \<longrightarrow> \<not> batchOpen (run L txs s) i"
proof (induction txs arbitrary: s)
  case Nil
  then show ?case by simp
next
  case (Cons tx txs)
  obtain e c where tx: "tx = (e, c)" by (cases tx)
  from Cons.prems have "\<forall>i. currentBatchId (commit (exec L e c s) s) < i \<longrightarrow>
      \<not> batchOpen (commit (exec L e c s) s) i"
    by (rule beyond_current_step)
  from Cons.IH [OF this] show ?case by (simp add: tx)
qed

lemma beyond_current_constructor:
  "\<forall>i. currentBatchId (constructor e0) < i \<longrightarrow> \<not> batchOpen (constructor e0) i"
  by (auto simp: constructor_def)

lemma closeCurrentBatch_Return:
  "closeCurrentBatch e s = Return s' \<Longrightarrow>
   currentBatchId s' = currentBatchId s \<and> batchOpen s' = (batchOpen s)(currentBatchId s := False)"
  by (auto simp: closeCurrentBatch_def onlyOwner_def emit_def split: if_splits)

lemma openNewBatch_Return:
  "openNewBatch e s = Return s' \<Longrightarrow>
   currentBatchId s < currentBatchId s' \<and> unat (currentBatchId s') = unat (currentBatchId s) + 1 \<and>
   batchOpen s' = (batchOpen s)(currentBatchId s' := True)"
  by (auto simp: openNewBatch_def onlyOwner_def emit_def dest: checked_add_one_less checked_add_sum
      split: if_splits option.splits)

lemma other_calls_keep_batches:
  "c \<noteq> OpenNewBatch \<Longrightarrow> c \<noteq> CloseCurrentBatch \<Longrightarrow>
   batchOpen (commit (exec L e c s) s) = batchOpen s \<and>
   currentBatchId (commit (exec L e c s) s) = currentBatchId s"
  by (cases c) (auto simp: op_defs modifier_defs emit_def Let_def split: option.splits)

text \<open>
  C9. In every state \<open>s\<close> reachable from the constructor: no id above the current one
  is open; an id at or below the current one that is closed stays closed across any later
  transactions, and the current id never decreases; a call opens an id only if it is
  \<open>openNewBatch\<close> and the id is the new current one, strictly above the old;
  \<open>closeCurrentBatch\<close> clears the flag of the current id and nothing else;
  \<open>openNewBatch\<close> moves to the next id, not open before, and sets its flag and nothing
  else.
\<close>

theorem closed_batch_never_reopens:
  assumes "s = run L txs (constructor e0)"
  shows "(\<forall>i. currentBatchId s < i \<longrightarrow> \<not> batchOpen s i) \<and>
         (\<forall>i. i \<le> currentBatchId s \<and> \<not> batchOpen s i \<longrightarrow> \<not> batchOpen (run L later s) i) \<and>
         currentBatchId s \<le> currentBatchId (run L later s) \<and>
         (\<forall>i. batchOpen (commit (exec L e c s) s) i \<and> \<not> batchOpen s i \<longrightarrow>
              c = OpenNewBatch \<and> currentBatchId s < i \<and> i = currentBatchId (commit (exec L e c s) s)) \<and>
         (closeCurrentBatch e s = Return s' \<longrightarrow>
            currentBatchId s' = currentBatchId s \<and>
            batchOpen s' = (batchOpen s)(currentBatchId s := False)) \<and>
         (openNewBatch e s = Return s' \<longrightarrow>
            currentBatchId s < currentBatchId s' \<and>
            unat (currentBatchId s') = unat (currentBatchId s) + 1 \<and>
            \<not> batchOpen s (currentBatchId s') \<and>
            batchOpen s' = (batchOpen s)(currentBatchId s' := True))"
proof -
  have inv: "\<forall>i. currentBatchId s < i \<longrightarrow> \<not> batchOpen s i"
    unfolding assms by (rule beyond_current_run [OF beyond_current_constructor])
  have stay: "\<forall>i. i \<le> currentBatchId s \<and> \<not> batchOpen s i \<longrightarrow> \<not> batchOpen (run L later s) i"
    using closed_run [of _ s L later] by blast
  have mono: "currentBatchId s \<le> currentBatchId (run L later s)" by (rule current_run)
  have opened: "\<forall>i. batchOpen (commit (exec L e c s) s) i \<and> \<not> batchOpen s i \<longrightarrow>
      c = OpenNewBatch \<and> currentBatchId s < i \<and> i = currentBatchId (commit (exec L e c s) s)"
  proof (intro allI impI)
    fix i
    assume a: "batchOpen (commit (exec L e c s) s) i \<and> \<not> batchOpen s i"
    with batch_step [of s L e c i]
    have "currentBatchId s < i \<and> i = currentBatchId (commit (exec L e c s) s)" by auto
    moreover have "c = OpenNewBatch"
    proof (rule ccontr)
      assume n: "c \<noteq> OpenNewBatch"
      show False
      proof (cases "c = CloseCurrentBatch")
        case True
        with a show False
          by (auto simp: closeCurrentBatch_def onlyOwner_def emit_def split: if_splits)
      next
        case False
        with n other_calls_keep_batches [of c L e s] a show False by simp
      qed
    qed
    ultimately show "c = OpenNewBatch \<and> currentBatchId s < i \<and> i = currentBatchId (commit (exec L e c s) s)"
      by blast
  qed
  have close: "closeCurrentBatch e s = Return s' \<longrightarrow>
      currentBatchId s' = currentBatchId s \<and> batchOpen s' = (batchOpen s)(currentBatchId s := False)"
    by (simp add: closeCurrentBatch_Return)
  have "openNewBatch e s = Return s' \<longrightarrow>
      currentBatchId s < currentBatchId s' \<and>
      unat (currentBatchId s') = unat (currentBatchId s) + 1 \<and>
      \<not> batchOpen s (currentBatchId s') \<and>
      batchOpen s' = (batchOpen s)(currentBatchId s' := True)"
    using openNewBatch_Return [of e s s'] inv by auto
  with inv stay mono opened close show ?thesis by blast
qed

text \<open>
  C9 on a sample run: the owner closes batch 1 and opens batch 2; batch 1 stays closed,
  and batch 2 is not open before it is current.
\<close>

theorem closed_batch_never_reopens_witness:
  "\<not> batchOpen (run sample_fhe [(acting 1 1006, OpenNewBatch)]
        (run sample_fhe [(acting 1 1005, CloseCurrentBatch)] (constructor (acting 1 1000)))) 1 \<and>
   \<not> batchOpen (run sample_fhe [(acting 1 1005, CloseCurrentBatch)] (constructor (acting 1 1000))) 2"
proof -
  let ?s = "run sample_fhe [(acting 1 1005, CloseCurrentBatch)] (constructor (acting 1 1000))"
  have cur: "currentBatchId ?s = 1" and closed: "\<not> batchOpen ?s 1"
    by (simp_all add: closeCurrentBatch_def onlyOwner_def constructor_def emit_def acting_simps)
  from closed_batch_never_reopens [OF refl, where L = sample_fhe
      and txs = "[(acting 1 1005, CloseCurrentBatch)]" and ?e0.0 = "acting 1 1000"
      and later = "[(acting 1 1006, OpenNewBatch)]"]
  have a: "\<forall>i. currentBatchId ?s < i \<longrightarrow> \<not> batchOpen ?s i"
    and b: "\<forall>i. i \<le> currentBatchId ?s \<and> \<not> batchOpen ?s i \<longrightarrow>
               \<not> batchOpen (run sample_fhe [(acting 1 1006, OpenNewBatch)] ?s) i"
    by blast+
  from a cur have "\<not> batchOpen ?s 2" by simp
  moreover from b cur closed
  have "\<not> batchOpen (run sample_fhe [(acting 1 1006, OpenNewBatch)] ?s) 1" by simp
  ultimately show ?thesis by blast
qed

end
